theory Spec2Isabelle
  imports Main
begin

section \<open>Errors\<close>

text \<open>
  The exceptions of \<^verbatim>\<open>db/errors\<close> that the code under study throws or tests with
  \<^verbatim>\<open>instanceof\<close>, the constraint failure of the SQLite driver, the \<^verbatim>\<open>TypeError\<close> of
  a property read on \<^verbatim>\<open>undefined\<close>, Node's refusal to set a header on a response
  that is already sent, and any other failure (of the Discord client, say).
\<close>

datatype side = Both | Discord | Minecraft

datatype js_error =
    AlreadyLinkedError side
  | NoDiscordAccError
  | NoMcAccError
  | SqliteConstraintError
  | TypeError
  | HeadersSentError
  | OtherError string

section \<open>The table \<^verbatim>\<open>account_links\<close> (db/tables/links.ts)\<close>

text \<open>
  A row has the two text columns of \<^verbatim>\<open>LinksTable.init\<close>. The table is the list of
  its rows in scan order; \<^verbatim>\<open>prepare(...).get(...)\<close> yields the first row that
  satisfies the \<^verbatim>\<open>WHERE\<close> clause, or \<^verbatim>\<open>undefined\<close>. A state-changing method
  returns its outcome together with the table it leaves behind. The methods are
  \<^verbatim>\<open>async\<close>; the model returns the value the promise resolves to.
\<close>

record link_row =
  minecraft :: string
  discord :: string

type_synonym links = "link_row list"

text \<open>
  \<^verbatim>\<open>getMcID\<close>: \<^verbatim>\<open>row?.minecraft\<close>, then the truthiness test \<^verbatim>\<open>if (uuid)\<close>, which the
  empty string fails like \<^verbatim>\<open>undefined\<close>.
\<close>

definition getMcID :: "string \<Rightarrow> links \<Rightarrow> js_error + string" where
  "getMcID discordID tbl =
     (case find (\<lambda>row. discord row = discordID) tbl of
        None \<Rightarrow> Inl NoMcAccError
      | Some row \<Rightarrow>
          (if minecraft row \<noteq> [] then Inr (minecraft row) else Inl NoMcAccError))"

text \<open>\<^verbatim>\<open>getDiscordID\<close>: the same shape, with \<^verbatim>\<open>null\<close> (here \<open>None\<close>) for absence.\<close>

definition getDiscordID :: "string \<Rightarrow> links \<Rightarrow> string option" where
  "getDiscordID uuid tbl =
     (case find (\<lambda>row. minecraft row = uuid) tbl of
        None \<Rightarrow> None
      | Some row \<Rightarrow> (if discord row \<noteq> [] then Some (discord row) else None))"

text \<open>
  The \<^verbatim>\<open>INSERT\<close> of \<^verbatim>\<open>link\<close>. Column \<^verbatim>\<open>discord\<close> is the primary key and column
  \<^verbatim>\<open>minecraft\<close> is \<^verbatim>\<open>UNIQUE\<close>: a row that repeats either value is refused by the
  driver and the table is left as it was.
\<close>

definition insert_link :: "string \<Rightarrow> string \<Rightarrow> links \<Rightarrow> (js_error + unit) \<times> links" where
  "insert_link discordID mcID tbl =
     (if find (\<lambda>row. discord row = discordID) tbl \<noteq> None
         \<or> find (\<lambda>row. minecraft row = mcID) tbl \<noteq> None
      then (Inl SqliteConstraintError, tbl)
      else (Inr (), tbl @ [\<lparr>minecraft = mcID, discord = discordID\<rparr>]))"

text \<open>
  \<^verbatim>\<open>link\<close>. The three branches test \<^verbatim>\<open>alreadyLinked.discord\<close> and
  \<^verbatim>\<open>alreadyLinked.minecraft\<close> for truthiness: a text column is truthy exactly when
  it is not the empty string. The requested identifiers take no part in the choice
  of the side.
\<close>

definition link :: "string \<Rightarrow> string \<Rightarrow> links \<Rightarrow> (js_error + unit) \<times> links" where
  "link discordID mcID tbl =
     (case find (\<lambda>row. discord row = discordID \<or> minecraft row = mcID) tbl of
        Some alreadyLinked \<Rightarrow>
          (if discord alreadyLinked \<noteq> [] \<and> minecraft alreadyLinked \<noteq> []
           then (Inl (AlreadyLinkedError Both), tbl)
           else if discord alreadyLinked \<noteq> []
           then (Inl (AlreadyLinkedError Discord), tbl)
           else (Inl (AlreadyLinkedError Minecraft), tbl))
      | None \<Rightarrow> insert_link discordID mcID tbl)"

section \<open>The table \<^verbatim>\<open>pending_authorisations\<close> (class AuthCodes)\<close>

record AuthCodeProfile =
  auth_code :: string
  mc_id :: string

type_synonym pending = "AuthCodeProfile list"

text \<open>
  \<^verbatim>\<open>assertAuthCode\<close>. The code comes from \<^verbatim>\<open>generateAuthCodeString\<close>, the first
  segment of a time-based UUID; the model takes the generated string as its first
  argument. Both columns are \<^verbatim>\<open>UNIQUE\<close> (\<^verbatim>\<open>AuthCodes.init\<close>). The statement is
  \<^verbatim>\<open>INSERT ... ON CONFLICT(mc_id) DO UPDATE SET auth_code=? WHERE mc_id=? RETURNING *\<close>:
  \<^item> a row of another player that already holds the code violates the constraint
    on \<^verbatim>\<open>auth_code\<close>, which the conflict clause does not cover: the driver throws
    and nothing is written;
  \<^item> otherwise a row with this \<^verbatim>\<open>mc_id\<close> has its code replaced;
  \<^item> otherwise the new row is appended.
  The value is the row that \<^verbatim>\<open>RETURNING *\<close> reports.
\<close>

definition assertAuthCode ::
  "string \<Rightarrow> string \<Rightarrow> pending \<Rightarrow> (js_error + AuthCodeProfile) \<times> pending" where
  "assertAuthCode code mc tbl =
     (if find (\<lambda>row. auth_code row = code \<and> mc_id row \<noteq> mc) tbl \<noteq> None
      then (Inl SqliteConstraintError, tbl)
      else
        (case find (\<lambda>row. mc_id row = mc) tbl of
           None \<Rightarrow>
             (Inr \<lparr>auth_code = code, mc_id = mc\<rparr>, tbl @ [\<lparr>auth_code = code, mc_id = mc\<rparr>])
         | Some _ \<Rightarrow>
             (Inr \<lparr>auth_code = code, mc_id = mc\<rparr>,
              map (\<lambda>row. if mc_id row = mc then row\<lparr>auth_code := code\<rparr> else row) tbl)))"

text \<open>The two \<^verbatim>\<open>UNIQUE\<close> constraints of the table, as a predicate on its rows.\<close>

definition pending_unique :: "pending \<Rightarrow> bool" where
  "pending_unique tbl = (distinct (map mc_id tbl) \<and> distinct (map auth_code tbl))"

section \<open>The web server (webserver/WebServer.ts)\<close>

subsection \<open>Values, payloads, the response object\<close>

text \<open>
  What \<^verbatim>\<open>express.json()\<close> leaves in \<^verbatim>\<open>req.body\<close>: a parsed JSON value, or
  \<^verbatim>\<open>undefined\<close> (\<open>None\<close>). An object is the list of its members, each name
  once. Only the type of a number is ever inspected.
\<close>

datatype json =
    JNull
  | JBool bool
  | JNum int
  | JStr string
  | JArr "json list"
  | JObj "(string \<times> json) list"

text \<open>
  The payloads handed to \<^verbatim>\<open>res.send\<close> are constants imported from
  \<^verbatim>\<open>./errors\<close> and \<^verbatim>\<open>./responses\<close>; a response records which constant was sent.
  \<open>expressNotFound\<close> stands for the page of the framework's final handler.
\<close>

datatype payload =
    noBodyError
  | noPlayerID
  | playerIDType
  | isValid
  | isNotValid
  | expressNotFound

record validation_result =
  valid :: bool
  reason :: "string option"

text \<open>
  Modelled from the spec: the contents of the constants \<^verbatim>\<open>noBodyError\<close>,
  \<^verbatim>\<open>noPlayerID\<close> and \<^verbatim>\<open>playerIDType\<close> of \<^verbatim>\<open>webserver/errors.ts\<close>, which is not
  among the sources. The spec gives the error payloads of the body validation
  stage as \<^verbatim>\<open>NO_BODY\<close>, \<^verbatim>\<open>NO_PLAYER_ID\<close> and \<^verbatim>\<open>PLAYER_ID_TYPE\<close>.
\<close>

fun errcode :: "payload \<Rightarrow> string option" where
  "errcode noBodyError = Some ''NO_BODY''"
| "errcode noPlayerID = Some ''NO_PLAYER_ID''"
| "errcode playerIDType = Some ''PLAYER_ID_TYPE''"
| "errcode isValid = None"
| "errcode isNotValid = None"
| "errcode expressNotFound = None"

text \<open>
  Modelled from the spec: the contents of the constants \<^verbatim>\<open>isValid\<close> and
  \<^verbatim>\<open>isNotValid\<close> of \<^verbatim>\<open>webserver/responses.ts\<close>, which is not among the sources.
  The spec gives the positive body as \<^verbatim>\<open>{"valid": true}\<close> and the body of the
  failure response, where the code sends \<^verbatim>\<open>isNotValid\<close>, as \<^verbatim>\<open>{"valid": false}\<close>.
\<close>

fun result_of :: "payload \<Rightarrow> validation_result option" where
  "result_of isValid = Some \<lparr>valid = True, reason = None\<rparr>"
| "result_of isNotValid = Some \<lparr>valid = False, reason = None\<rparr>"
| "result_of noBodyError = None"
| "result_of noPlayerID = None"
| "result_of playerIDType = None"
| "result_of expressNotFound = None"

text \<open>
  The response object: the status code (200 until set), the headers set by the
  handlers, the payload sent if any, and whether the response is ended.
  \<^verbatim>\<open>res.send\<close> writes the payload and ends the response; \<^verbatim>\<open>res.setHeader\<close>
  throws once the response is sent.
\<close>

record response =
  statusCode :: nat
  headers :: "(string \<times> string) list"
  sent :: "payload option"
  finished :: bool

definition fresh_response :: response where
  "fresh_response = \<lparr>statusCode = 200, headers = [], sent = None, finished = False\<rparr>"

definition res_status :: "nat \<Rightarrow> response \<Rightarrow> response" where
  "res_status code res = res\<lparr>statusCode := code\<rparr>"

definition res_send :: "payload \<Rightarrow> response \<Rightarrow> response" where
  "res_send p res = res\<lparr>sent := Some p, finished := True\<rparr>"

definition res_end :: "response \<Rightarrow> response" where
  "res_end res = res\<lparr>finished := True\<rparr>"

definition res_setHeader :: "string \<Rightarrow> string \<Rightarrow> response \<Rightarrow> js_error + response" where
  "res_setHeader name v res =
     (if finished res then Inl HeadersSentError
      else Inr (res\<lparr>headers := (name, v) # filter (\<lambda>h. fst h \<noteq> name) (headers res)\<rparr>))"

text \<open>
  How a middleware leaves: it called \<^verbatim>\<open>next()\<close>, it returned after answering, or
  it threw.
\<close>

datatype 'a flow = Next 'a | Done | Throw js_error

subsection \<open>checkAuth\<close>

text \<open>
  \<^verbatim>\<open>String.prototype.split\<close> with a one-character separator: every occurrence
  separates, so the result is never empty and two adjacent separators enclose an
  empty segment.
\<close>

fun split :: "char \<Rightarrow> string \<Rightarrow> string list" where
  "split sep [] = [[]]"
| "split sep (c # cs) =
     (if c = sep then [] # split sep cs
      else (case split sep cs of
              [] \<Rightarrow> [[c]]
            | seg # segs \<Rightarrow> (c # seg) # segs))"

text \<open>
  \<^verbatim>\<open>checkAuth\<close>, with the configured token and the value of the
  \<^verbatim>\<open>Authorization\<close> header (\<open>None\<close> when the header is absent). \<^verbatim>\<open>!auth\<close> holds
  for \<^verbatim>\<open>undefined\<close> and for the empty string.
\<close>

definition checkAuth :: "string \<Rightarrow> string option \<Rightarrow> response \<Rightarrow> unit flow \<times> response" where
  "checkAuth token auth res =
     (case auth of
        None \<Rightarrow> (Done, res_end (res_status 203 res))
      | Some a \<Rightarrow>
          (if a = [] then (Done, res_end (res_status 203 res))
           else
             (let authSplit = split (CHR '' '') a in
              if length authSplit = 1 then (Done, res_end (res_status 203 res))
              else if authSplit ! 1 = token then (Next (), res)
              else (Done, res_end (res_status 401 res)))))"

subsection \<open>validateBody\<close>

datatype route = PostIsValidPlayer | OtherRoute

text \<open>
  The request: the \<^verbatim>\<open>Authorization\<close> header, whether it is a
  \<^verbatim>\<open>POST /isValidPlayer\<close>, \<^verbatim>\<open>req.body\<close>, and the property \<^verbatim>\<open>req['player_id']\<close>
  that \<^verbatim>\<open>validateBody\<close> attaches (\<open>None\<close> while it is \<^verbatim>\<open>undefined\<close>).
\<close>

record request =
  authorization :: "string option"
  route :: route
  body :: "json option"
  player_id :: "json option"

text \<open>\<^verbatim>\<open>x == undefined\<close> holds for \<^verbatim>\<open>undefined\<close> and for \<^verbatim>\<open>null\<close>.\<close>

fun loosely_undefined :: "json option \<Rightarrow> bool" where
  "loosely_undefined None = True"
| "loosely_undefined (Some JNull) = True"
| "loosely_undefined (Some _) = False"

text \<open>\<^verbatim>\<open>typeof x == 'string'\<close>.\<close>

fun typeof_string :: "json option \<Rightarrow> bool" where
  "typeof_string (Some (JStr _)) = True"
| "typeof_string _ = False"

text \<open>
  The property read \<^verbatim>\<open>req.body['player_id']\<close>: a \<^verbatim>\<open>TypeError\<close> on \<^verbatim>\<open>undefined\<close>
  and \<^verbatim>\<open>null\<close>, the member of an object if it has one, \<^verbatim>\<open>undefined\<close> otherwise
  (arrays and primitives have no property of that name).
\<close>

fun property :: "json option \<Rightarrow> string \<Rightarrow> js_error + json option" where
  "property None k = Inl TypeError"
| "property (Some JNull) k = Inl TypeError"
| "property (Some (JObj members)) k = Inr (map_of members k)"
| "property (Some _) k = Inr None"

text \<open>
  \<^verbatim>\<open>validateBody\<close>. The first \<^verbatim>\<open>if\<close> answers and does not return, so the property
  read that follows it runs on the missing body as well.
\<close>

definition validateBody :: "request \<Rightarrow> response \<Rightarrow> request flow \<times> response" where
  "validateBody req res =
     (let res1 = (if loosely_undefined (body req)
                  then res_end (res_send noBodyError (res_status 400 res))
                  else res)
      in case property (body req) ''player_id'' of
           Inl err \<Rightarrow> (Throw err, res1)
         | Inr playerUUID \<Rightarrow>
             (case res_setHeader ''Content-Type'' ''application/json'' res1 of
                Inl err \<Rightarrow> (Throw err, res1)
              | Inr res2 \<Rightarrow>
                  (if loosely_undefined playerUUID
                   then (Done, res_end (res_send noPlayerID (res_status 400 res2)))
                   else if \<not> typeof_string playerUUID
                   then (Done, res_end (res_send playerIDType (res_status 400 res2)))
                   else (Next (req\<lparr>player_id := playerUUID\<rparr>), res2))))"

subsection \<open>isValidPlayer\<close>

text \<open>
  The two collaborators are parameters: \<open>db\<close> is \<^verbatim>\<open>DBController.getDiscordID\<close>,
  applied to whatever \<^verbatim>\<open>req['player_id']\<close> holds, and \<open>oracle\<close> is
  \<^verbatim>\<open>Bot.isTierThree\<close>, applied to what the lookup returned (\<open>None\<close> for \<^verbatim>\<open>null\<close>).
  Either may throw. The calls made are recorded, in order.
\<close>

datatype event = GetDiscordID "json option" | IsTierThree "string option"

type_synonym db_lookup = "json option \<Rightarrow> js_error + string option"
type_synonym role_oracle = "string option \<Rightarrow> js_error + bool"

text \<open>The \<^verbatim>\<open>catch\<close> block.\<close>

definition on_error :: "js_error \<Rightarrow> response \<Rightarrow> response" where
  "on_error err res =
     (if err = NoDiscordAccError
      then res_end (res_send isNotValid (res_status 200 res))
      else res_end (res_send isNotValid (res_status 500 res)))"

definition isValidPlayer ::
  "db_lookup \<Rightarrow> role_oracle \<Rightarrow> request \<Rightarrow> response \<Rightarrow> event list \<times> response" where
  "isValidPlayer db oracle req res =
     (let playerUUID = player_id req in
      case db playerUUID of
        Inl err \<Rightarrow> ([GetDiscordID playerUUID], on_error err res)
      | Inr discordID \<Rightarrow>
          (case oracle discordID of
             Inl err \<Rightarrow> ([GetDiscordID playerUUID, IsTierThree discordID], on_error err res)
           | Inr isTierThree \<Rightarrow>
               ([GetDiscordID playerUUID, IsTierThree discordID],
                res_end (res_send (if isTierThree then isValid else isNotValid)
                                  (res_status 200 res)))))"

text \<open>
  Modelled from the spec: \<^verbatim>\<open>DBController.getDiscordID\<close> of \<^verbatim>\<open>db/index.ts\<close>, which
  is not among the sources. The spec's \<^verbatim>\<open>resolveDiscordId(mcId)\<close> is a lookup by
  Minecraft id in the link store whose absence is a normal outcome: the call is
  passed on to \<^verbatim>\<open>LinksTable.getDiscordID\<close>, whose parameter is a string.
\<close>

fun DBController_getDiscordID :: "links \<Rightarrow> db_lookup" where
  "DBController_getDiscordID tbl (Some (JStr uuid)) = Inr (getDiscordID uuid tbl)"
| "DBController_getDiscordID tbl _ = Inl TypeError"

subsection \<open>The chain registered by start\<close>

text \<open>
  \<^verbatim>\<open>start\<close> registers \<^verbatim>\<open>checkAuth\<close> for every request, then, for
  \<^verbatim>\<open>POST /isValidPlayer\<close>, the body parser, \<^verbatim>\<open>validateBody\<close> and
  \<^verbatim>\<open>isValidPlayer\<close>; a handler runs only if every one before it called
  \<^verbatim>\<open>next()\<close>. An authorised request to another route reaches the framework's
  final handler (404). An exception thrown by a middleware reaches the
  framework's error handler, which answers 500 unless the response is already
  sent. The result is the calls made to the collaborators, the response, and the
  exception if one was thrown.
\<close>

definition handle ::
  "string \<Rightarrow> db_lookup \<Rightarrow> role_oracle \<Rightarrow> request \<Rightarrow> event list \<times> response \<times> js_error option" where
  "handle token db oracle req =
     (case checkAuth token (authorization req) fresh_response of
        (Done, res) \<Rightarrow> ([], res, None)
      | (Throw err, res) \<Rightarrow> ([], res, Some err)
      | (Next _, res) \<Rightarrow>
          (if route req \<noteq> PostIsValidPlayer
           then ([], res_end (res_send expressNotFound (res_status 404 res)), None)
           else
             (case validateBody req res of
                (Done, res') \<Rightarrow> ([], res', None)
              | (Throw err, res') \<Rightarrow>
                  ([], if finished res' then res' else res_end (res_status 500 res'), Some err)
              | (Next req', res') \<Rightarrow>
                  (case isValidPlayer db oracle req' res' of
                     (events, res'') \<Rightarrow> (events, res'', None)))))"

section \<open>Properties of the link table\<close>

lemma find_append_None:
  "find P xs = None \<Longrightarrow> find P (xs @ ys) = find P ys"
  by (induction xs) (auto split: if_splits)

text \<open>A failing \<^verbatim>\<open>link\<close> writes nothing.\<close>

lemma link_fails_unchanged:
  "link discordID mcID tbl = (Inl err, tbl') \<Longrightarrow> tbl' = tbl"
  by (auto simp: link_def insert_link_def split: option.splits if_splits)

text \<open>
  \<^verbatim>\<open>link\<close> succeeds exactly when no row holds either identifier; the uniqueness
  constraints of the \<^verbatim>\<open>INSERT\<close> can then not fail.
\<close>

lemma link_succeeds_iff:
  "(\<exists>tbl'. link discordID mcID tbl = (Inr (), tbl')) \<longleftrightarrow>
   find (\<lambda>row. discord row = discordID \<or> minecraft row = mcID) tbl = None"
proof (cases "find (\<lambda>row. discord row = discordID \<or> minecraft row = mcID) tbl")
  case None
  then have "find (\<lambda>row. discord row = discordID) tbl = None"
    and "find (\<lambda>row. minecraft row = mcID) tbl = None"
    by (auto simp: find_None_iff)
  with None show ?thesis by (simp add: link_def insert_link_def)
next
  case (Some row)
  then show ?thesis by (simp add: link_def)
qed

lemma link_success:
  assumes "link discordID mcID tbl = (Inr u, tbl')"
  shows "find (\<lambda>row. discord row = discordID \<or> minecraft row = mcID) tbl = None
         \<and> tbl' = tbl @ [\<lparr>minecraft = mcID, discord = discordID\<rparr>]"
  using assms
  by (auto simp: link_def insert_link_def split: option.splits if_splits)

text \<open>
  Whatever was requested, a colliding row whose two columns are both non-empty
  is reported as \<open>Both\<close>.
\<close>

lemma link_collision_both:
  assumes "find (\<lambda>row. discord row = discordID \<or> minecraft row = mcID) tbl = Some row"
    and "discord row \<noteq> []" and "minecraft row \<noteq> []"
  shows "link discordID mcID tbl = (Inl (AlreadyLinkedError Both), tbl)"
  using assms by (simp add: link_def)

text \<open>
  C1. The claim: when a row holds \<open>discordID\<close> or \<open>mcID\<close>, \<^verbatim>\<open>link\<close> fails with
  \<^verbatim>\<open>AlreadyLinked\<close>, side \<open>Both\<close> if the row equals the requested pair, \<open>Discord\<close> if
  only its discord column equals \<open>discordID\<close>, \<open>Minecraft\<close> otherwise. The code
  evaluated where the table holds the link (d1, m1): a request for (d1, m2), where
  only the Discord id collides, and a request for (d2, m1), where only the
  Minecraft id collides, both fail with side \<open>Both\<close>.
\<close>

theorem link_side_ignores_request:
  "link ''d1'' ''m2'' [\<lparr>minecraft = ''m1'', discord = ''d1''\<rparr>]
     = (Inl (AlreadyLinkedError Both), [\<lparr>minecraft = ''m1'', discord = ''d1''\<rparr>])
   \<and> link ''d2'' ''m1'' [\<lparr>minecraft = ''m1'', discord = ''d1''\<rparr>]
     = (Inl (AlreadyLinkedError Both), [\<lparr>minecraft = ''m1'', discord = ''d1''\<rparr>])"
  by (simp add: link_def)

text \<open>
  C3, as stated, fails where an identifier is the empty string: the link of the
  empty Discord id to m1 succeeds, and the lookup by m1 then reports absence,
  because \<^verbatim>\<open>getDiscordID\<close> tests the column for truthiness.
\<close>

theorem link_empty_id_counterexample:
  "link [] ''m1'' [] = (Inr (), [\<lparr>minecraft = ''m1'', discord = []\<rparr>])
   \<and> getDiscordID ''m1'' [\<lparr>minecraft = ''m1'', discord = []\<rparr>] \<noteq> Some []"
  by (simp add: link_def insert_link_def getDiscordID_def)

text \<open>
  C3, amended: for every pair of non-empty identifiers, if \<^verbatim>\<open>link\<close> succeeds then
  in the table it leaves \<^verbatim>\<open>getDiscordID\<close> of the Minecraft id returns the Discord
  id and \<^verbatim>\<open>getMcID\<close> of the Discord id returns the Minecraft id.
\<close>

theorem link_then_resolve:
  assumes "link discordID mcID tbl = (Inr (), tbl')"
    and "discordID \<noteq> []" and "mcID \<noteq> []"
  shows "getDiscordID mcID tbl' = Some discordID \<and> getMcID discordID tbl' = Inr mcID"
proof -
  from assms(1)
  have none: "find (\<lambda>row. discord row = discordID \<or> minecraft row = mcID) tbl = None"
    and tbl': "tbl' = tbl @ [\<lparr>minecraft = mcID, discord = discordID\<rparr>]"
    using link_success by blast+
  from none have "find (\<lambda>row. minecraft row = mcID) tbl = None"
    and "find (\<lambda>row. discord row = discordID) tbl = None"
    by (auto simp: find_None_iff)
  with tbl' assms(2,3) show ?thesis
    by (simp add: getDiscordID_def getMcID_def find_append_None)
qed

theorem link_then_resolve_witness:
  "link ''d1'' ''m1'' [] = (Inr (), [\<lparr>minecraft = ''m1'', discord = ''d1''\<rparr>])
   \<and> getDiscordID ''m1'' [\<lparr>minecraft = ''m1'', discord = ''d1''\<rparr>] = Some ''d1''
   \<and> getMcID ''d1'' [\<lparr>minecraft = ''m1'', discord = ''d1''\<rparr>] = Inr ''m1''"
proof -
  have h: "link ''d1'' ''m1'' [] = (Inr (), [\<lparr>minecraft = ''m1'', discord = ''d1''\<rparr>])"
    by (simp add: link_def insert_link_def)
  from link_then_resolve [OF h] h show ?thesis by simp
qed

text \<open>
  C7. The claim: a request whose Discord id is already linked to another
  Minecraft id, and whose Minecraft id is in no row, fails with side \<open>Discord\<close> and
  inserts nothing. The code evaluated where d1 is linked to m1 and (d1, m2) is
  requested: nothing is inserted, and the side reported is \<open>Both\<close>.
\<close>

theorem link_discord_taken:
  "link ''d1'' ''m2''
     [\<lparr>minecraft = ''m1'', discord = ''d1''\<rparr>, \<lparr>minecraft = ''m3'', discord = ''d3''\<rparr>]
     = (Inl (AlreadyLinkedError Both),
        [\<lparr>minecraft = ''m1'', discord = ''d1''\<rparr>, \<lparr>minecraft = ''m3'', discord = ''d3''\<rparr>])"
  by (simp add: link_def)

section \<open>Properties of the pending authorisations\<close>

lemma filter_find_None:
  "find P xs = None \<Longrightarrow> filter P xs = []"
  by (induction xs) (auto split: if_splits)

lemma upsert_filter:
  assumes "distinct (map mc_id tbl)" and "find (\<lambda>row. mc_id row = mc) tbl = Some r"
  shows "filter (\<lambda>row. mc_id row = mc)
           (map (\<lambda>row. if mc_id row = mc then row\<lparr>auth_code := code\<rparr> else row) tbl)
         = [\<lparr>auth_code = code, mc_id = mc\<rparr>]"
  using assms
proof (induction tbl)
  case Nil
  then show ?case by simp
next
  case (Cons x xs)
  show ?case
  proof (cases "mc_id x = mc")
    case True
    with Cons.prems(1) have "mc \<notin> set (map mc_id xs)" by simp
    then have "\<forall>row \<in> set xs. mc_id row \<noteq> mc" by (auto simp: image_iff)
    then have "filter (\<lambda>row. mc_id row = mc)
           (map (\<lambda>row. if mc_id row = mc then row\<lparr>auth_code := code\<rparr> else row) xs) = []"
      by (induction xs) auto
    with True show ?thesis by simp
  next
    case False
    with Cons show ?thesis by simp
  qed
qed

lemma upsert_mc_ids:
  "map mc_id (map (\<lambda>row. if mc_id row = mc then row\<lparr>auth_code := code\<rparr> else row) tbl)
   = map mc_id tbl"
  by (induction tbl) auto

lemma upsert_codes_distinct:
  assumes "distinct (map mc_id tbl)" and "distinct (map auth_code tbl)"
    and "find (\<lambda>row. auth_code row = code \<and> mc_id row \<noteq> mc) tbl = None"
  shows "distinct (map auth_code
           (map (\<lambda>row. if mc_id row = mc then row\<lparr>auth_code := code\<rparr> else row) tbl))"
  using assms
proof (induction tbl)
  case Nil
  then show ?case by simp
next
  case (Cons x xs)
  from Cons.prems(3) have rest: "find (\<lambda>row. auth_code row = code \<and> mc_id row \<noteq> mc) xs = None"
    and x: "auth_code x = code \<longrightarrow> mc_id x = mc"
    by (auto split: if_splits)
  from rest have others: "\<forall>row \<in> set xs. auth_code row = code \<longrightarrow> mc_id row = mc"
    by (auto simp: find_None_iff)
  from Cons rest have IH: "distinct (map auth_code
           (map (\<lambda>row. if mc_id row = mc then row\<lparr>auth_code := code\<rparr> else row) xs))"
    by simp
  show ?case
  proof (cases "mc_id x = mc")
    case True
    with Cons.prems(1) have "mc \<notin> set (map mc_id xs)" by simp
    then have "\<forall>row \<in> set xs. mc_id row \<noteq> mc" by (auto simp: image_iff)
    with others have "\<forall>row \<in> set xs. auth_code row \<noteq> code \<and> mc_id row \<noteq> mc" by auto
    with True IH show ?thesis by auto
  next
    case False
    with x have ne: "auth_code x \<noteq> code" by auto
    from Cons.prems(2) have "auth_code x \<notin> set (map auth_code xs)" by simp
    then have "\<forall>row \<in> set xs. auth_code row \<noteq> auth_code x" by (auto simp: image_iff)
    with ne have "\<forall>row \<in> set xs.
        auth_code (if mc_id row = mc then row\<lparr>auth_code := code\<rparr> else row) \<noteq> auth_code x"
      by simp
    then have "auth_code x \<notin> set (map auth_code
           (map (\<lambda>row. if mc_id row = mc then row\<lparr>auth_code := code\<rparr> else row) xs))"
      by (auto simp: image_iff)
    with False IH show ?thesis by simp
  qed
qed

text \<open>
  A call that returns leaves exactly one row for the player, holding the code of
  that call, and keeps both columns free of duplicates.
\<close>

lemma assertAuthCode_row:
  assumes "pending_unique tbl" and "assertAuthCode code mc tbl = (Inr r, tbl')"
  shows "r = \<lparr>auth_code = code, mc_id = mc\<rparr>
         \<and> filter (\<lambda>row. mc_id row = mc) tbl' = [\<lparr>auth_code = code, mc_id = mc\<rparr>]
         \<and> pending_unique tbl'"
proof -
  from assms(2) have free: "find (\<lambda>row. auth_code row = code \<and> mc_id row \<noteq> mc) tbl = None"
    by (auto simp: assertAuthCode_def split: if_splits)
  show ?thesis
  proof (cases "find (\<lambda>row. mc_id row = mc) tbl")
    case None
    with assms(2) free have r: "r = \<lparr>auth_code = code, mc_id = mc\<rparr>"
      and tbl': "tbl' = tbl @ [\<lparr>auth_code = code, mc_id = mc\<rparr>]"
      by (auto simp: assertAuthCode_def)
    from None have nomc: "\<forall>row \<in> set tbl. mc_id row \<noteq> mc"
      by (auto simp: find_None_iff)
    with free have nocode: "\<forall>row \<in> set tbl. auth_code row \<noteq> code"
      by (auto simp: find_None_iff)
    from None have "filter (\<lambda>row. mc_id row = mc) tbl = []"
      by (rule filter_find_None)
    with r tbl' assms(1) nomc nocode show ?thesis
      by (auto simp: pending_unique_def)
  next
    case (Some old)
    with assms(2) free have r: "r = \<lparr>auth_code = code, mc_id = mc\<rparr>"
      and tbl': "tbl' = map (\<lambda>row. if mc_id row = mc then row\<lparr>auth_code := code\<rparr> else row) tbl"
      by (auto simp: assertAuthCode_def)
    from assms(1) have d1: "distinct (map mc_id tbl)" and d2: "distinct (map auth_code tbl)"
      by (simp_all add: pending_unique_def)
    have "filter (\<lambda>row. mc_id row = mc) tbl' = [\<lparr>auth_code = code, mc_id = mc\<rparr>]"
      unfolding tbl' using d1 Some by (rule upsert_filter)
    moreover have "distinct (map mc_id tbl')"
      unfolding tbl' upsert_mc_ids using d1 .
    moreover have "distinct (map auth_code tbl')"
      unfolding tbl' using d1 d2 free by (rule upsert_codes_distinct)
    ultimately show ?thesis using r by (simp add: pending_unique_def)
  qed
qed

text \<open>A call that throws writes nothing.\<close>

lemma assertAuthCode_fails_unchanged:
  "assertAuthCode code mc tbl = (Inl err, tbl') \<Longrightarrow> tbl' = tbl"
  by (auto simp: assertAuthCode_def split: if_splits option.splits)

text \<open>
  The call returns exactly when no other player's row holds the generated code.
\<close>

lemma assertAuthCode_succeeds_iff:
  "(\<exists>r tbl'. assertAuthCode code mc tbl = (Inr r, tbl')) \<longleftrightarrow>
   find (\<lambda>row. auth_code row = code \<and> mc_id row \<noteq> mc) tbl = None"
  by (auto simp: assertAuthCode_def split: option.splits)

text \<open>
  C8, as stated, fails where the second generated code is the pending code of
  another player: the update violates the \<^verbatim>\<open>UNIQUE\<close> constraint on \<^verbatim>\<open>auth_code\<close>,
  the call throws, and the player's row keeps the code of the first call.
\<close>

theorem assertAuthCode_code_taken_counterexample:
  "assertAuthCode ''5e6f7a8b'' ''alex'' [\<lparr>auth_code = ''9c0d1e2f'', mc_id = ''steve''\<rparr>]
     = (Inr \<lparr>auth_code = ''5e6f7a8b'', mc_id = ''alex''\<rparr>,
        [\<lparr>auth_code = ''9c0d1e2f'', mc_id = ''steve''\<rparr>, \<lparr>auth_code = ''5e6f7a8b'', mc_id = ''alex''\<rparr>])
   \<and> assertAuthCode ''9c0d1e2f'' ''alex''
        [\<lparr>auth_code = ''9c0d1e2f'', mc_id = ''steve''\<rparr>, \<lparr>auth_code = ''5e6f7a8b'', mc_id = ''alex''\<rparr>]
     = (Inl SqliteConstraintError,
        [\<lparr>auth_code = ''9c0d1e2f'', mc_id = ''steve''\<rparr>, \<lparr>auth_code = ''5e6f7a8b'', mc_id = ''alex''\<rparr>])
   \<and> filter (\<lambda>row. mc_id row = ''alex'')
        [\<lparr>auth_code = ''9c0d1e2f'', mc_id = ''steve''\<rparr>, \<lparr>auth_code = ''5e6f7a8b'', mc_id = ''alex''\<rparr>]
     \<noteq> [\<lparr>auth_code = ''9c0d1e2f'', mc_id = ''alex''\<rparr>]"
  by (simp add: assertAuthCode_def)

text \<open>
  C8, amended: on a table that satisfies its two \<^verbatim>\<open>UNIQUE\<close> constraints, if two
  calls of \<^verbatim>\<open>assertAuthCode\<close> for the same Minecraft id both return (neither
  generated code is the pending code of another Minecraft id), then exactly one
  row is left for that id, its code is the one generated by the second call, it
  is the row the second call returns, and the constraints still hold.
\<close>

theorem assertAuthCode_twice:
  assumes "pending_unique tbl"
    and "assertAuthCode code1 mc tbl = (Inr r1, tbl1)"
    and "assertAuthCode code2 mc tbl1 = (Inr r2, tbl2)"
  shows "filter (\<lambda>row. mc_id row = mc) tbl2 = [\<lparr>auth_code = code2, mc_id = mc\<rparr>]
         \<and> r2 = \<lparr>auth_code = code2, mc_id = mc\<rparr>
         \<and> pending_unique tbl2"
proof -
  from assertAuthCode_row [OF assms(1,2)] have "pending_unique tbl1" by simp
  from assertAuthCode_row [OF this assms(3)] show ?thesis by simp
qed

theorem assertAuthCode_twice_witness:
  "pending_unique [\<lparr>auth_code = ''0a1b2c3d'', mc_id = ''steve''\<rparr>]
   \<and> assertAuthCode ''5e6f7a8b'' ''alex'' [\<lparr>auth_code = ''0a1b2c3d'', mc_id = ''steve''\<rparr>]
     = (Inr \<lparr>auth_code = ''5e6f7a8b'', mc_id = ''alex''\<rparr>,
        [\<lparr>auth_code = ''0a1b2c3d'', mc_id = ''steve''\<rparr>, \<lparr>auth_code = ''5e6f7a8b'', mc_id = ''alex''\<rparr>])
   \<and> assertAuthCode ''9c0d1e2f'' ''alex''
        [\<lparr>auth_code = ''0a1b2c3d'', mc_id = ''steve''\<rparr>, \<lparr>auth_code = ''5e6f7a8b'', mc_id = ''alex''\<rparr>]
     = (Inr \<lparr>auth_code = ''9c0d1e2f'', mc_id = ''alex''\<rparr>,
        [\<lparr>auth_code = ''0a1b2c3d'', mc_id = ''steve''\<rparr>, \<lparr>auth_code = ''9c0d1e2f'', mc_id = ''alex''\<rparr>])
   \<and> filter (\<lambda>row. mc_id row = ''alex'')
        [\<lparr>auth_code = ''0a1b2c3d'', mc_id = ''steve''\<rparr>, \<lparr>auth_code = ''9c0d1e2f'', mc_id = ''alex''\<rparr>]
     = [\<lparr>auth_code = ''9c0d1e2f'', mc_id = ''alex''\<rparr>]"
proof -
  have h0: "pending_unique [\<lparr>auth_code = ''0a1b2c3d'', mc_id = ''steve''\<rparr>]"
    by (simp add: pending_unique_def)
  have h1: "assertAuthCode ''5e6f7a8b'' ''alex'' [\<lparr>auth_code = ''0a1b2c3d'', mc_id = ''steve''\<rparr>]
     = (Inr \<lparr>auth_code = ''5e6f7a8b'', mc_id = ''alex''\<rparr>,
        [\<lparr>auth_code = ''0a1b2c3d'', mc_id = ''steve''\<rparr>, \<lparr>auth_code = ''5e6f7a8b'', mc_id = ''alex''\<rparr>])"
    by (simp add: assertAuthCode_def)
  have h2: "assertAuthCode ''9c0d1e2f'' ''alex''
        [\<lparr>auth_code = ''0a1b2c3d'', mc_id = ''steve''\<rparr>, \<lparr>auth_code = ''5e6f7a8b'', mc_id = ''alex''\<rparr>]
     = (Inr \<lparr>auth_code = ''9c0d1e2f'', mc_id = ''alex''\<rparr>,
        [\<lparr>auth_code = ''0a1b2c3d'', mc_id = ''steve''\<rparr>, \<lparr>auth_code = ''9c0d1e2f'', mc_id = ''alex''\<rparr>])"
    by (simp add: assertAuthCode_def)
  from assertAuthCode_twice [OF h0 h1 h2] h0 h1 h2 show ?thesis by simp
qed

section \<open>Properties of the authorization stage\<close>

lemma split_not_Nil: "split sep s \<noteq> []"
  by (induction s) (auto split: list.splits)

lemma split_no_sep: "sep \<notin> set s \<Longrightarrow> split sep s = [s]"
  by (induction s) auto

lemma split_sep_length: "sep \<in> set s \<Longrightarrow> 2 \<le> length (split sep s)"
proof (induction s)
  case Nil
  then show ?case by simp
next
  case (Cons c cs)
  show ?case
  proof (cases "c = sep")
    case True
    have "split sep cs \<noteq> []" by (rule split_not_Nil)
    then have "1 \<le> length (split sep cs)" by (cases "split sep cs") auto
    with True show ?thesis by simp
  next
    case False
    with Cons.prems have "sep \<in> set cs" by simp
    then have "2 \<le> length (split sep cs)" by (rule Cons.IH)
    with False show ?thesis by (cases "split sep cs") auto
  qed
qed

lemma split_length_one_iff: "length (split sep s) = 1 \<longleftrightarrow> sep \<notin> set s"
proof
  assume "length (split sep s) = 1"
  then show "sep \<notin> set s" using split_sep_length [of sep s] by auto
next
  assume "sep \<notin> set s"
  then show "length (split sep s) = 1" by (simp add: split_no_sep)
qed

lemma split_first_segment:
  "sep \<notin> set s \<Longrightarrow> split sep (s @ sep # t) = s # split sep t"
  by (induction s) auto

lemma checkAuth_no_pair:
  assumes "auth = None \<or> (\<exists>a. auth = Some a \<and> CHR '' '' \<notin> set a)"
  shows "checkAuth token auth res = (Done, res_end (res_status 203 res))"
  using assms by (auto simp: checkAuth_def split_no_sep)

lemma checkAuth_pair:
  assumes "CHR '' '' \<in> set a"
  shows "checkAuth token (Some a) res =
           (if split (CHR '' '') a ! 1 = token then (Next (), res)
            else (Done, res_end (res_status 401 res)))"
proof -
  from assms have "a \<noteq> []" by auto
  moreover from assms have "2 \<le> length (split (CHR '' '') a)"
    by (rule split_sep_length)
  then have "length (split (CHR '' '') a) \<noteq> 1" by simp
  ultimately show ?thesis by (simp add: checkAuth_def Let_def)
qed

lemma checkAuth_Next_iff:
  "fst (checkAuth token auth res) = Next () \<longleftrightarrow>
   (\<exists>a. auth = Some a \<and> CHR '' '' \<in> set a \<and> split (CHR '' '') a ! 1 = token)"
proof (cases auth)
  case None
  then show ?thesis by (simp add: checkAuth_def)
next
  case (Some a)
  show ?thesis
  proof (cases "CHR '' '' \<in> set a")
    case True
    with Some show ?thesis by (simp add: checkAuth_pair)
  next
    case False
    with Some have "checkAuth token auth res = (Done, res_end (res_status 203 res))"
      by (simp add: checkAuth_no_pair)
    with Some False show ?thesis by simp
  qed
qed

text \<open>
  C4. Whatever the request, the table and the oracle: a request without an
  \<^verbatim>\<open>Authorization\<close> header, or whose header holds no space, is answered 203
  with no body; a request whose header holds a space and whose second segment is
  not the configured token is answered 401 with no body; in both cases no call
  to the store or the oracle is made. \<^verbatim>\<open>checkAuth\<close> calls \<^verbatim>\<open>next()\<close> exactly when
  the second segment equals the token, and a request that reaches the store has
  passed that test.
\<close>

theorem authorization_first:
  "(authorization req = None \<or> (\<exists>a. authorization req = Some a \<and> CHR '' '' \<notin> set a)
      \<longrightarrow> handle token db oracle req
            = ([], \<lparr>statusCode = 203, headers = [], sent = None, finished = True\<rparr>, None))
   \<and> (\<forall>a. authorization req = Some a \<and> CHR '' '' \<in> set a
            \<and> split (CHR '' '') a ! 1 \<noteq> token
      \<longrightarrow> handle token db oracle req
            = ([], \<lparr>statusCode = 401, headers = [], sent = None, finished = True\<rparr>, None))
   \<and> (fst (checkAuth token (authorization req) fresh_response) = Next ()
      \<longleftrightarrow> (\<exists>a. authorization req = Some a \<and> CHR '' '' \<in> set a
               \<and> split (CHR '' '') a ! 1 = token))
   \<and> (fst (handle token db oracle req) \<noteq> []
      \<longrightarrow> (\<exists>a. authorization req = Some a \<and> CHR '' '' \<in> set a
               \<and> split (CHR '' '') a ! 1 = token))"
proof (intro conjI impI allI)
  assume "authorization req = None \<or> (\<exists>a. authorization req = Some a \<and> CHR '' '' \<notin> set a)"
  then have "checkAuth token (authorization req) fresh_response
             = (Done, res_end (res_status 203 fresh_response))"
    by (rule checkAuth_no_pair)
  then show "handle token db oracle req
            = ([], \<lparr>statusCode = 203, headers = [], sent = None, finished = True\<rparr>, None)"
    by (simp add: handle_def res_end_def res_status_def fresh_response_def)
next
  fix a
  assume "authorization req = Some a \<and> CHR '' '' \<in> set a \<and> split (CHR '' '') a ! 1 \<noteq> token"
  then have "checkAuth token (authorization req) fresh_response
             = (Done, res_end (res_status 401 fresh_response))"
    by (simp add: checkAuth_pair)
  then show "handle token db oracle req
            = ([], \<lparr>statusCode = 401, headers = [], sent = None, finished = True\<rparr>, None)"
    by (simp add: handle_def res_end_def res_status_def fresh_response_def)
next
  show "fst (checkAuth token (authorization req) fresh_response) = Next ()
      \<longleftrightarrow> (\<exists>a. authorization req = Some a \<and> CHR '' '' \<in> set a
               \<and> split (CHR '' '') a ! 1 = token)"
    by (rule checkAuth_Next_iff)
next
  assume events: "fst (handle token db oracle req) \<noteq> []"
  have "fst (checkAuth token (authorization req) fresh_response) = Next ()"
  proof (rule ccontr)
    assume "fst (checkAuth token (authorization req) fresh_response) \<noteq> Next ()"
    then have "fst (handle token db oracle req) = []"
      by (cases "checkAuth token (authorization req) fresh_response")
         (auto simp: handle_def split: flow.splits)
    with events show False by simp
  qed
  then show "\<exists>a. authorization req = Some a \<and> CHR '' '' \<in> set a
               \<and> split (CHR '' '') a ! 1 = token"
    by (simp add: checkAuth_Next_iff)
qed

theorem authorization_first_witness:
  "handle ''secret'' (\<lambda>_. Inr None) (\<lambda>_. Inr False)
     \<lparr>authorization = None, route = PostIsValidPlayer, body = None, player_id = None\<rparr>
     = ([], \<lparr>statusCode = 203, headers = [], sent = None, finished = True\<rparr>, None)
   \<and> handle ''secret'' (\<lambda>_. Inr None) (\<lambda>_. Inr False)
       \<lparr>authorization = Some ''Bearer'', route = PostIsValidPlayer, body = None, player_id = None\<rparr>
     = ([], \<lparr>statusCode = 203, headers = [], sent = None, finished = True\<rparr>, None)
   \<and> handle ''secret'' (\<lambda>_. Inr None) (\<lambda>_. Inr False)
       \<lparr>authorization = Some ''Bearer wrong'', route = PostIsValidPlayer, body = None,
        player_id = None\<rparr>
     = ([], \<lparr>statusCode = 401, headers = [], sent = None, finished = True\<rparr>, None)
   \<and> fst (handle ''secret'' (\<lambda>_. Inr None) (\<lambda>_. Inr False)
       \<lparr>authorization = Some ''Bearer secret'', route = PostIsValidPlayer,
        body = Some (JObj [(''player_id'', JStr ''m1'')]), player_id = None\<rparr>) \<noteq> []
   \<and> split (CHR '' '') ''Bearer secret'' ! 1 = ''secret''"
proof -
  let ?db = "\<lambda>_::json option. Inr None :: js_error + string option"
  let ?role = "\<lambda>_::string option. Inr False :: js_error + bool"
  let ?absent = "\<lparr>authorization = None, route = PostIsValidPlayer, body = None,
                  player_id = None\<rparr>"
  let ?bare = "\<lparr>authorization = Some ''Bearer'', route = PostIsValidPlayer, body = None,
                player_id = None\<rparr>"
  let ?wrong = "\<lparr>authorization = Some ''Bearer wrong'', route = PostIsValidPlayer,
                 body = None, player_id = None\<rparr>"
  let ?good = "\<lparr>authorization = Some ''Bearer secret'', route = PostIsValidPlayer,
                body = Some (JObj [(''player_id'', JStr ''m1'')]), player_id = None\<rparr>"
  have h1: "authorization ?absent = None
            \<or> (\<exists>a. authorization ?absent = Some a \<and> CHR '' '' \<notin> set a)"
    by simp
  have h2: "authorization ?bare = None
            \<or> (\<exists>a. authorization ?bare = Some a \<and> CHR '' '' \<notin> set a)"
    by simp
  have h3: "authorization ?wrong = Some ''Bearer wrong'' \<and> CHR '' '' \<in> set ''Bearer wrong''
            \<and> split (CHR '' '') ''Bearer wrong'' ! 1 \<noteq> ''secret''"
    by simp
  have h4: "fst (handle ''secret'' ?db ?role ?good) \<noteq> []"
    by (simp add: handle_def checkAuth_def validateBody_def isValidPlayer_def
        res_setHeader_def fresh_response_def)
  note thm1 = authorization_first [of ?absent "''secret''" ?db ?role]
  note thm2 = authorization_first [of ?bare "''secret''" ?db ?role]
  note thm3 = authorization_first [of ?wrong "''secret''" ?db ?role]
  note thm4 = authorization_first [of ?good "''secret''" ?db ?role]
  from thm1 h1 have c1: "handle ''secret'' ?db ?role ?absent
     = ([], \<lparr>statusCode = 203, headers = [], sent = None, finished = True\<rparr>, None)"
    by blast
  from thm2 h2 have c2: "handle ''secret'' ?db ?role ?bare
     = ([], \<lparr>statusCode = 203, headers = [], sent = None, finished = True\<rparr>, None)"
    by blast
  from thm3 h3 have c3: "handle ''secret'' ?db ?role ?wrong
     = ([], \<lparr>statusCode = 401, headers = [], sent = None, finished = True\<rparr>, None)"
    by blast
  from thm4 h4 have "\<exists>a. authorization ?good = Some a \<and> CHR '' '' \<in> set a
               \<and> split (CHR '' '') a ! 1 = ''secret''"
    by blast
  then have c4: "split (CHR '' '') ''Bearer secret'' ! 1 = ''secret''" by simp
  from c1 c2 c3 h4 c4 show ?thesis by blast
qed

text \<open>
  C9. For a header that holds a space, the outcome of \<^verbatim>\<open>checkAuth\<close> is decided by
  the second space-separated segment alone: the request proceeds if that segment
  equals the configured token and is answered 401 otherwise. So any scheme
  followed by a space and the token is accepted, with or without further
  segments after the token.
\<close>

theorem checkAuth_ignores_scheme:
  "(CHR '' '' \<in> set a \<longrightarrow>
      checkAuth token (Some a) res =
        (if split (CHR '' '') a ! 1 = token then (Next (), res)
         else (Done, res_end (res_status 401 res))))
   \<and> (CHR '' '' \<notin> set scheme \<and> CHR '' '' \<notin> set token \<longrightarrow>
        checkAuth token (Some (scheme @ '' '' @ token)) res = (Next (), res)
      \<and> checkAuth token (Some (scheme @ '' '' @ token @ '' '' @ rest)) res = (Next (), res))"
proof (intro conjI impI)
  assume "CHR '' '' \<in> set a"
  then show "checkAuth token (Some a) res =
        (if split (CHR '' '') a ! 1 = token then (Next (), res)
         else (Done, res_end (res_status 401 res)))"
    by (rule checkAuth_pair)
next
  assume h: "CHR '' '' \<notin> set scheme \<and> CHR '' '' \<notin> set token"
  then have "split (CHR '' '') (scheme @ '' '' @ token) = [scheme, token]"
    by (simp add: split_first_segment split_no_sep)
  then show "checkAuth token (Some (scheme @ '' '' @ token)) res = (Next (), res)"
    by (simp add: checkAuth_pair)
next
  assume h: "CHR '' '' \<notin> set scheme \<and> CHR '' '' \<notin> set token"
  then have "split (CHR '' '') (scheme @ '' '' @ token @ '' '' @ rest)
             = scheme # token # split (CHR '' '') rest"
    by (simp add: split_first_segment)
  then show "checkAuth token (Some (scheme @ '' '' @ token @ '' '' @ rest)) res = (Next (), res)"
    by (simp add: checkAuth_pair)
qed

theorem checkAuth_ignores_scheme_witness:
  "CHR '' '' \<in> set ''NotBearer secret extra''
   \<and> checkAuth ''secret'' (Some ''NotBearer secret extra'') fresh_response
       = (Next (), fresh_response)
   \<and> checkAuth ''secret'' (Some ''NotBearer secret'') fresh_response
       = (Next (), fresh_response)
   \<and> checkAuth ''secret'' (Some ''NotBearer wrong secret'') fresh_response
       = (Done, res_end (res_status 401 fresh_response))"
proof -
  have h1: "CHR '' '' \<in> set ''NotBearer wrong secret''" by simp
  have h2: "CHR '' '' \<notin> set ''NotBearer'' \<and> CHR '' '' \<notin> set ''secret''" by simp
  have h3: "CHR '' '' \<in> set ''NotBearer secret extra''" by simp
  from checkAuth_ignores_scheme [of "''NotBearer wrong secret''" "''secret''" fresh_response
      "''NotBearer''" "''extra''"] h1 h2 h3
  show ?thesis by simp
qed

section \<open>Properties of the body validation stage\<close>

lemma property_Inr_not_undefined:
  "property b k = Inr v \<Longrightarrow> \<not> loosely_undefined b"
  by (induction b k rule: property.induct) auto

lemma typeof_string_iff: "typeof_string v \<longleftrightarrow> (\<exists>s. v = Some (JStr s))"
  by (induction v rule: typeof_string.induct) auto

lemma property_undefined:
  "loosely_undefined b \<Longrightarrow> property b k = Inl TypeError"
  by (induction b k rule: property.induct) auto

lemma validateBody_no_body:
  assumes "loosely_undefined (body req)"
  shows "validateBody req res
         = (Throw TypeError, res\<lparr>statusCode := 400, sent := Some noBodyError, finished := True\<rparr>)"
  using assms property_undefined [OF assms, of "''player_id''"]
  by (simp add: validateBody_def res_end_def res_send_def res_status_def)

lemma validateBody_member:
  assumes "property (body req) ''player_id'' = Inr playerUUID" and "\<not> finished res"
  shows "validateBody req res =
     (if loosely_undefined playerUUID
      then (Done, res\<lparr>statusCode := 400,
                      headers := (''Content-Type'', ''application/json'')
                                 # filter (\<lambda>h. fst h \<noteq> ''Content-Type'') (headers res),
                      sent := Some noPlayerID, finished := True\<rparr>)
      else if \<not> typeof_string playerUUID
      then (Done, res\<lparr>statusCode := 400,
                      headers := (''Content-Type'', ''application/json'')
                                 # filter (\<lambda>h. fst h \<noteq> ''Content-Type'') (headers res),
                      sent := Some playerIDType, finished := True\<rparr>)
      else (Next (req\<lparr>player_id := playerUUID\<rparr>),
            res\<lparr>headers := (''Content-Type'', ''application/json'')
                            # filter (\<lambda>h. fst h \<noteq> ''Content-Type'') (headers res)\<rparr>))"
proof -
  from assms(1) have "\<not> loosely_undefined (body req)"
    by (rule property_Inr_not_undefined)
  with assms show ?thesis
    by (simp add: validateBody_def res_setHeader_def res_end_def res_send_def res_status_def)
qed

lemma validateBody_Next:
  assumes "validateBody req res = (Next req', res')"
  shows "\<exists>s. property (body req) ''player_id'' = Inr (Some (JStr s))
             \<and> req' = req\<lparr>player_id := Some (JStr s)\<rparr>"
proof (cases "property (body req) ''player_id''")
  case (Inl err)
  with assms show ?thesis by (simp add: validateBody_def Let_def)
next
  case (Inr playerUUID)
  with assms have "\<not> loosely_undefined playerUUID \<and> typeof_string playerUUID
                   \<and> req' = req\<lparr>player_id := playerUUID\<rparr>"
    by (auto simp: validateBody_def Let_def split: sum.splits if_splits)
  with Inr show ?thesis by (auto simp: typeof_string_iff)
qed

text \<open>
  C6, as stated, fails where \<^verbatim>\<open>player_id\<close> is present with the value \<^verbatim>\<open>null\<close>: the
  field is there and is not a string, and the answer is \<^verbatim>\<open>NO_PLAYER_ID\<close>, because
  \<^verbatim>\<open>playerUUID == undefined\<close> holds for \<^verbatim>\<open>null\<close> too.
\<close>

theorem validateBody_null_player_id_counterexample:
  "property (Some (JObj [(''player_id'', JNull)])) ''player_id'' = Inr (Some JNull)
   \<and> \<not> typeof_string (Some JNull)
   \<and> validateBody
       \<lparr>authorization = Some ''Bearer secret'', route = PostIsValidPlayer,
        body = Some (JObj [(''player_id'', JNull)]), player_id = None\<rparr> fresh_response
     = (Done, \<lparr>statusCode = 400, headers = [(''Content-Type'', ''application/json'')],
              sent = Some noPlayerID, finished = True\<rparr>)
   \<and> errcode noPlayerID \<noteq> Some ''PLAYER_ID_TYPE''"
  by (simp add: validateBody_def res_setHeader_def res_end_def res_send_def res_status_def
      fresh_response_def)

text \<open>
  C6, amended: on a response not yet sent, the stage answers a missing body
  (\<^verbatim>\<open>undefined\<close> or \<^verbatim>\<open>null\<close>) with 400 and \<^verbatim>\<open>NO_BODY\<close> and does not proceed; a
  body whose \<^verbatim>\<open>player_id\<close> is missing or \<^verbatim>\<open>null\<close> with 400 and \<^verbatim>\<open>NO_PLAYER_ID\<close>;
  a \<^verbatim>\<open>player_id\<close> that is present, not \<^verbatim>\<open>null\<close> and not a string with 400 and
  \<^verbatim>\<open>PLAYER_ID_TYPE\<close>; and it proceeds, with the value attached to the request and
  nothing sent, exactly when \<^verbatim>\<open>player_id\<close> is a string.
\<close>

theorem validateBody_classifies:
  assumes "\<not> finished res"
  shows
  "(loosely_undefined (body req) \<longrightarrow>
      (\<forall>req'. fst (validateBody req res) \<noteq> Next req')
      \<and> snd (validateBody req res)
          = res\<lparr>statusCode := 400, sent := Some noBodyError, finished := True\<rparr>
      \<and> errcode noBodyError = Some ''NO_BODY'')
   \<and> (\<forall>v. property (body req) ''player_id'' = Inr v \<and> loosely_undefined v \<longrightarrow>
      fst (validateBody req res) = Done
      \<and> statusCode (snd (validateBody req res)) = 400
      \<and> sent (snd (validateBody req res)) = Some noPlayerID
      \<and> errcode noPlayerID = Some ''NO_PLAYER_ID'')
   \<and> (\<forall>v. property (body req) ''player_id'' = Inr v \<and> \<not> loosely_undefined v
          \<and> \<not> typeof_string v \<longrightarrow>
      fst (validateBody req res) = Done
      \<and> statusCode (snd (validateBody req res)) = 400
      \<and> sent (snd (validateBody req res)) = Some playerIDType
      \<and> errcode playerIDType = Some ''PLAYER_ID_TYPE'')
   \<and> (\<forall>s. property (body req) ''player_id'' = Inr (Some (JStr s)) \<longrightarrow>
      fst (validateBody req res) = Next (req\<lparr>player_id := Some (JStr s)\<rparr>)
      \<and> sent (snd (validateBody req res)) = sent res
      \<and> \<not> finished (snd (validateBody req res)))
   \<and> (\<forall>req'. fst (validateBody req res) = Next req' \<longrightarrow>
      (\<exists>s. property (body req) ''player_id'' = Inr (Some (JStr s))
           \<and> player_id req' = Some (JStr s)))"
proof -
  have missing_body: "loosely_undefined (body req) \<longrightarrow>
      (\<forall>req'. fst (validateBody req res) \<noteq> Next req')
      \<and> snd (validateBody req res)
          = res\<lparr>statusCode := 400, sent := Some noBodyError, finished := True\<rparr>
      \<and> errcode noBodyError = Some ''NO_BODY''"
    by (simp add: validateBody_no_body)
  have missing_id: "\<forall>v. property (body req) ''player_id'' = Inr v \<and> loosely_undefined v \<longrightarrow>
      fst (validateBody req res) = Done
      \<and> statusCode (snd (validateBody req res)) = 400
      \<and> sent (snd (validateBody req res)) = Some noPlayerID
      \<and> errcode noPlayerID = Some ''NO_PLAYER_ID''"
    using assms by (simp add: validateBody_member)
  have wrong_type: "\<forall>v. property (body req) ''player_id'' = Inr v \<and> \<not> loosely_undefined v
          \<and> \<not> typeof_string v \<longrightarrow>
      fst (validateBody req res) = Done
      \<and> statusCode (snd (validateBody req res)) = 400
      \<and> sent (snd (validateBody req res)) = Some playerIDType
      \<and> errcode playerIDType = Some ''PLAYER_ID_TYPE''"
    using assms by (simp add: validateBody_member)
  have proceeds: "\<forall>s. property (body req) ''player_id'' = Inr (Some (JStr s)) \<longrightarrow>
      fst (validateBody req res) = Next (req\<lparr>player_id := Some (JStr s)\<rparr>)
      \<and> sent (snd (validateBody req res)) = sent res
      \<and> \<not> finished (snd (validateBody req res))"
    using assms by (simp add: validateBody_member)
  have only_strings: "\<forall>req'. fst (validateBody req res) = Next req' \<longrightarrow>
      (\<exists>s. property (body req) ''player_id'' = Inr (Some (JStr s))
           \<and> player_id req' = Some (JStr s))"
  proof (intro allI impI)
    fix req'
    assume "fst (validateBody req res) = Next req'"
    then have "validateBody req res = (Next req', snd (validateBody req res))"
      by (metis prod.collapse)
    from validateBody_Next [OF this]
    show "\<exists>s. property (body req) ''player_id'' = Inr (Some (JStr s))
             \<and> player_id req' = Some (JStr s)"
      by auto
  qed
  from missing_body missing_id wrong_type proceeds only_strings show ?thesis
    by (intro conjI)
qed

theorem validateBody_classifies_witness:
  "\<not> finished fresh_response
   \<and> snd (validateBody
       \<lparr>authorization = Some ''Bearer secret'', route = PostIsValidPlayer, body = None,
        player_id = None\<rparr> fresh_response)
     = \<lparr>statusCode = 400, headers = [], sent = Some noBodyError, finished = True\<rparr>
   \<and> sent (snd (validateBody
       \<lparr>authorization = Some ''Bearer secret'', route = PostIsValidPlayer,
        body = Some (JObj []), player_id = None\<rparr> fresh_response))
     = Some noPlayerID
   \<and> sent (snd (validateBody
       \<lparr>authorization = Some ''Bearer secret'', route = PostIsValidPlayer,
        body = Some (JObj [(''player_id'', JNum 123)]), player_id = None\<rparr> fresh_response))
     = Some playerIDType
   \<and> fst (validateBody
       \<lparr>authorization = Some ''Bearer secret'', route = PostIsValidPlayer,
        body = Some (JObj [(''player_id'', JStr ''m1'')]), player_id = None\<rparr> fresh_response)
     = Next \<lparr>authorization = Some ''Bearer secret'', route = PostIsValidPlayer,
        body = Some (JObj [(''player_id'', JStr ''m1'')]), player_id = Some (JStr ''m1'')\<rparr>"
proof -
  let ?none = "\<lparr>authorization = Some ''Bearer secret'', route = PostIsValidPlayer,
                body = None, player_id = None\<rparr>"
  let ?empty = "\<lparr>authorization = Some ''Bearer secret'', route = PostIsValidPlayer,
                 body = Some (JObj []), player_id = None\<rparr>"
  let ?num = "\<lparr>authorization = Some ''Bearer secret'', route = PostIsValidPlayer,
               body = Some (JObj [(''player_id'', JNum 123)]), player_id = None\<rparr>"
  let ?str = "\<lparr>authorization = Some ''Bearer secret'', route = PostIsValidPlayer,
               body = Some (JObj [(''player_id'', JStr ''m1'')]), player_id = None\<rparr>"
  have fresh: "\<not> finished fresh_response" by (simp add: fresh_response_def)
  have h1: "loosely_undefined (body ?none)" by simp
  have h2: "property (body ?empty) ''player_id'' = Inr None \<and> loosely_undefined None"
    by simp
  have h3: "property (body ?num) ''player_id'' = Inr (Some (JNum 123))
            \<and> \<not> loosely_undefined (Some (JNum 123)) \<and> \<not> typeof_string (Some (JNum 123))"
    by simp
  have h4: "property (body ?str) ''player_id'' = Inr (Some (JStr ''m1''))" by simp
  from validateBody_classifies [OF fresh, of ?none] h1
  have c1: "snd (validateBody ?none fresh_response)
            = \<lparr>statusCode = 400, headers = [], sent = Some noBodyError, finished = True\<rparr>"
    by (simp add: fresh_response_def)
  from validateBody_classifies [OF fresh, of ?empty] h2
  have c2: "sent (snd (validateBody ?empty fresh_response)) = Some noPlayerID" by blast
  from validateBody_classifies [OF fresh, of ?num] h3
  have c3: "sent (snd (validateBody ?num fresh_response)) = Some playerIDType" by blast
  from validateBody_classifies [OF fresh, of ?str] h4
  have c4: "fst (validateBody ?str fresh_response)
            = Next (?str\<lparr>player_id := Some (JStr ''m1'')\<rparr>)" by blast
  from fresh c1 c2 c3 c4 show ?thesis by simp
qed

section \<open>Properties of the resolution stage\<close>

lemma checkAuth_Next_response:
  "checkAuth token auth res = (Next u, res') \<Longrightarrow> res' = res"
  by (auto simp: checkAuth_def Let_def split: option.splits if_splits)

text \<open>
  An authorised request to the endpoint whose body has a string \<^verbatim>\<open>player_id\<close>
  reaches \<^verbatim>\<open>isValidPlayer\<close> with that string attached.
\<close>

lemma handle_authorized:
  assumes "authorization req = Some a" and "CHR '' '' \<in> set a"
    and "split (CHR '' '') a ! 1 = token"
    and "route req = PostIsValidPlayer"
    and "property (body req) ''player_id'' = Inr (Some (JStr p))"
  shows "handle token db oracle req =
          (case isValidPlayer db oracle (req\<lparr>player_id := Some (JStr p)\<rparr>)
                  (fresh_response\<lparr>headers := [(''Content-Type'', ''application/json'')]\<rparr>) of
             (events, res) \<Rightarrow> (events, res, None))"
proof -
  from assms(1-3) have "checkAuth token (authorization req) fresh_response
                        = (Next (), fresh_response)"
    by (simp add: checkAuth_pair)
  moreover have "\<not> finished fresh_response" by (simp add: fresh_response_def)
  then have "validateBody req fresh_response
             = (Next (req\<lparr>player_id := Some (JStr p)\<rparr>),
                fresh_response\<lparr>headers := [(''Content-Type'', ''application/json'')]\<rparr>)"
    using assms(5) by (simp add: validateBody_member) (simp add: fresh_response_def)
  ultimately show ?thesis using assms(4) by (simp add: handle_def)
qed

lemma isValidPlayer_oracle_throws:
  assumes "db (player_id req) = Inr discordID" and "oracle discordID = Inl err"
  shows "isValidPlayer db oracle req res
         = ([GetDiscordID (player_id req), IsTierThree discordID],
            res\<lparr>statusCode := (if err = NoDiscordAccError then 200 else 500),
                sent := Some isNotValid, finished := True\<rparr>)"
  using assms
  by (simp add: isValidPlayer_def on_error_def res_end_def res_send_def res_status_def)

text \<open>
  Every answer of \<^verbatim>\<open>isValidPlayer\<close> carries one of the two constants, and
  \<^verbatim>\<open>isValid\<close> only when the oracle returned true: every negative answer is the
  one constant \<^verbatim>\<open>isNotValid\<close>.
\<close>

lemma isValidPlayer_payload:
  "sent (snd (isValidPlayer db oracle req res)) = Some isValid
   \<or> sent (snd (isValidPlayer db oracle req res)) = Some isNotValid"
  by (simp add: isValidPlayer_def on_error_def res_end_def res_send_def res_status_def Let_def
      split: sum.splits)

lemma isValidPlayer_positive_iff:
  "sent (snd (isValidPlayer db oracle req res)) = Some isValid \<longleftrightarrow>
   (\<exists>discordID. db (player_id req) = Inr discordID \<and> oracle discordID = Inr True)"
  by (auto simp: isValidPlayer_def on_error_def res_end_def res_send_def res_status_def Let_def
      split: sum.splits)

lemma isValidPlayer_events:
  "GetDiscordID v \<in> set (fst (isValidPlayer db oracle req res)) \<Longrightarrow> v = player_id req"
  by (auto simp: isValidPlayer_def Let_def split: sum.splits)

text \<open>
  C5. For an authorised request to the endpoint whose body has a string
  \<^verbatim>\<open>player_id\<close>: if the lookup returns and the oracle, called with what it
  returned, throws anything but \<^verbatim>\<open>NoDiscordAccError\<close>, the answer is 500 with the
  constant \<^verbatim>\<open>isNotValid\<close>, whose content is \<^verbatim>\<open>{valid: false}\<close>.
\<close>

theorem oracle_failure_fails_closed:
  assumes "authorization req = Some a" and "CHR '' '' \<in> set a"
    and "split (CHR '' '') a ! 1 = token"
    and "route req = PostIsValidPlayer"
    and "property (body req) ''player_id'' = Inr (Some (JStr p))"
    and "db (Some (JStr p)) = Inr discordID"
    and "oracle discordID = Inl err"
    and "err \<noteq> NoDiscordAccError"
  shows "handle token db oracle req
         = ([GetDiscordID (Some (JStr p)), IsTierThree discordID],
            \<lparr>statusCode = 500, headers = [(''Content-Type'', ''application/json'')],
             sent = Some isNotValid, finished = True\<rparr>, None)
         \<and> result_of isNotValid = Some \<lparr>valid = False, reason = None\<rparr>"
proof -
  let ?req = "req\<lparr>player_id := Some (JStr p)\<rparr>"
  from assms(6) have "db (player_id ?req) = Inr discordID" by simp
  with isValidPlayer_oracle_throws [of db "?req" discordID "oracle" err] assms(7,8)
  have "isValidPlayer db oracle ?req
          (fresh_response\<lparr>headers := [(''Content-Type'', ''application/json'')]\<rparr>)
        = ([GetDiscordID (Some (JStr p)), IsTierThree discordID],
            \<lparr>statusCode = 500, headers = [(''Content-Type'', ''application/json'')],
             sent = Some isNotValid, finished = True\<rparr>)"
    by (simp add: fresh_response_def)
  with handle_authorized [OF assms(1-5), of db "oracle"] show ?thesis by simp
qed

theorem oracle_failure_fails_closed_witness:
  "handle ''secret'' (DBController_getDiscordID [\<lparr>minecraft = ''m1'', discord = ''d1''\<rparr>])
     (\<lambda>_. Inl (OtherError ''timeout''))
     \<lparr>authorization = Some ''Bearer secret'', route = PostIsValidPlayer,
      body = Some (JObj [(''player_id'', JStr ''m1'')]), player_id = None\<rparr>
   = ([GetDiscordID (Some (JStr ''m1'')), IsTierThree (Some ''d1'')],
      \<lparr>statusCode = 500, headers = [(''Content-Type'', ''application/json'')],
       sent = Some isNotValid, finished = True\<rparr>, None)"
proof -
  let ?req = "\<lparr>authorization = Some ''Bearer secret'', route = PostIsValidPlayer,
      body = Some (JObj [(''player_id'', JStr ''m1'')]), player_id = None\<rparr>"
  let ?db = "DBController_getDiscordID [\<lparr>minecraft = ''m1'', discord = ''d1''\<rparr>]"
  let ?role = "\<lambda>_::string option. Inl (OtherError ''timeout'') :: js_error + bool"
  have h1: "authorization ?req = Some ''Bearer secret''" by simp
  have h2: "CHR '' '' \<in> set ''Bearer secret''" by simp
  have h3: "split (CHR '' '') ''Bearer secret'' ! 1 = ''secret''" by simp
  have h4: "route ?req = PostIsValidPlayer" by simp
  have h5: "property (body ?req) ''player_id'' = Inr (Some (JStr ''m1''))" by simp
  have h6: "?db (Some (JStr ''m1'')) = Inr (Some ''d1'')" by (simp add: getDiscordID_def)
  have h7: "?role (Some ''d1'') = Inl (OtherError ''timeout'')" by simp
  have h8: "OtherError ''timeout'' \<noteq> NoDiscordAccError" by simp
  note inst = oracle_failure_fails_closed [of "?req" "''Bearer secret''" "''secret''" "''m1''"
      "?db" "Some ''d1''" "?role" "OtherError ''timeout''"]
  from inst h1 h2 h3 h4 h5 h6 h7 h8 show ?thesis by blast
qed

text \<open>
  C2. The claim: an unlinked player is answered 200 with reason \<^verbatim>\<open>no_link\<close>, and a
  linked player whose Discord account the oracle does not find with reason
  \<^verbatim>\<open>no_role\<close>. The code evaluated where the table holds the link (d1, m1) and the
  oracle throws \<^verbatim>\<open>NoDiscordAccError\<close>: the request for the linked m1 and the
  request for the unlinked m2 (for which the oracle is called with \<^verbatim>\<open>null\<close>) get
  the same status and the same constant \<^verbatim>\<open>isNotValid\<close>.
\<close>

theorem negative_outcomes_same_body:
  "handle ''secret'' (DBController_getDiscordID [\<lparr>minecraft = ''m1'', discord = ''d1''\<rparr>])
     (\<lambda>_. Inl NoDiscordAccError)
     \<lparr>authorization = Some ''Bearer secret'', route = PostIsValidPlayer,
      body = Some (JObj [(''player_id'', JStr ''m1'')]), player_id = None\<rparr>
   = ([GetDiscordID (Some (JStr ''m1'')), IsTierThree (Some ''d1'')],
      \<lparr>statusCode = 200, headers = [(''Content-Type'', ''application/json'')],
       sent = Some isNotValid, finished = True\<rparr>, None)
   \<and> handle ''secret'' (DBController_getDiscordID [\<lparr>minecraft = ''m1'', discord = ''d1''\<rparr>])
     (\<lambda>_. Inl NoDiscordAccError)
     \<lparr>authorization = Some ''Bearer secret'', route = PostIsValidPlayer,
      body = Some (JObj [(''player_id'', JStr ''m2'')]), player_id = None\<rparr>
   = ([GetDiscordID (Some (JStr ''m2'')), IsTierThree None],
      \<lparr>statusCode = 200, headers = [(''Content-Type'', ''application/json'')],
       sent = Some isNotValid, finished = True\<rparr>, None)"
  by (simp add: handle_def checkAuth_def validateBody_def isValidPlayer_def on_error_def
      res_setHeader_def res_end_def res_send_def res_status_def fresh_response_def
      getDiscordID_def)

text \<open>
  C10. When \<^verbatim>\<open>validateBody\<close> calls \<^verbatim>\<open>next()\<close>, the request it passes on has a
  string attached as \<^verbatim>\<open>player_id\<close>, the one found in the body; and every lookup
  that the chain makes for a request is made with such a string.
\<close>

theorem resolution_reads_string:
  "(\<forall>req' res'. validateBody req res = (Next req', res') \<longrightarrow>
       (\<exists>s. player_id req' = Some (JStr s)
            \<and> property (body req) ''player_id'' = Inr (Some (JStr s))))
   \<and> (\<forall>v. GetDiscordID v \<in> set (fst (handle token db oracle req)) \<longrightarrow>
       (\<exists>s. v = Some (JStr s) \<and> property (body req) ''player_id'' = Inr (Some (JStr s))))"
proof (intro conjI allI impI)
  fix req' res'
  assume "validateBody req res = (Next req', res')"
  from validateBody_Next [OF this]
  show "\<exists>s. player_id req' = Some (JStr s)
            \<and> property (body req) ''player_id'' = Inr (Some (JStr s))"
    by auto
next
  fix v
  assume ev: "GetDiscordID v \<in> set (fst (handle token db oracle req))"
  obtain f res where auth: "checkAuth token (authorization req) fresh_response = (f, res)"
    by (cases "checkAuth token (authorization req) fresh_response")
  obtain g res' where val: "validateBody req res = (g, res')"
    by (cases "validateBody req res")
  from ev auth val obtain req' where g: "g = Next req'"
    and ev': "GetDiscordID v \<in> set (fst (isValidPlayer db oracle req' res'))"
    by (auto simp: handle_def split: flow.splits if_splits prod.splits)
  from ev' have v: "v = player_id req'" by (rule isValidPlayer_events)
  from val g validateBody_Next [of req res req' res']
  obtain s where "property (body req) ''player_id'' = Inr (Some (JStr s))"
    and "req' = req\<lparr>player_id := Some (JStr s)\<rparr>"
    by auto
  with v show "\<exists>s. v = Some (JStr s) \<and> property (body req) ''player_id'' = Inr (Some (JStr s))"
    by simp
qed

theorem resolution_reads_string_witness:
  "validateBody
     \<lparr>authorization = Some ''Bearer secret'', route = PostIsValidPlayer,
      body = Some (JObj [(''player_id'', JStr ''m1'')]), player_id = None\<rparr> fresh_response
   = (Next \<lparr>authorization = Some ''Bearer secret'', route = PostIsValidPlayer,
            body = Some (JObj [(''player_id'', JStr ''m1'')]),
            player_id = Some (JStr ''m1'')\<rparr>,
      \<lparr>statusCode = 200, headers = [(''Content-Type'', ''application/json'')], sent = None,
       finished = False\<rparr>)
   \<and> GetDiscordID (Some (JStr ''m1''))
       \<in> set (fst (handle ''secret''
                 (DBController_getDiscordID [\<lparr>minecraft = ''m1'', discord = ''d1''\<rparr>])
                 (\<lambda>_. Inr True)
                 \<lparr>authorization = Some ''Bearer secret'', route = PostIsValidPlayer,
                  body = Some (JObj [(''player_id'', JStr ''m1'')]), player_id = None\<rparr>))
   \<and> (\<exists>s. Some (JStr ''m1'') = Some (JStr s)
          \<and> property (Some (JObj [(''player_id'', JStr ''m1'')])) ''player_id''
              = Inr (Some (JStr s)))"
proof -
  let ?req = "\<lparr>authorization = Some ''Bearer secret'', route = PostIsValidPlayer,
               body = Some (JObj [(''player_id'', JStr ''m1'')]), player_id = None\<rparr>"
  let ?db = "DBController_getDiscordID [\<lparr>minecraft = ''m1'', discord = ''d1''\<rparr>]"
  let ?role = "\<lambda>_::string option. Inr True :: js_error + bool"
  have h1: "validateBody ?req fresh_response
   = (Next (?req\<lparr>player_id := Some (JStr ''m1'')\<rparr>),
      \<lparr>statusCode = 200, headers = [(''Content-Type'', ''application/json'')], sent = None,
       finished = False\<rparr>)"
    by (simp add: validateBody_def res_setHeader_def fresh_response_def)
  have h2: "GetDiscordID (Some (JStr ''m1'')) \<in> set (fst (handle ''secret'' ?db ?role ?req))"
    by (simp add: handle_def checkAuth_def validateBody_def isValidPlayer_def
        res_setHeader_def fresh_response_def getDiscordID_def)
  note inst = resolution_reads_string [of ?req fresh_response "''secret''" ?db ?role]
  from inst h2
  have "\<exists>s. Some (JStr ''m1'') = Some (JStr s)
          \<and> property (body ?req) ''player_id'' = Inr (Some (JStr s))"
    by blast
  with h1 h2 show ?thesis by simp
qed

end
